theory Spec2Isabelle
  imports Complex_Main "HOL-Library.Sublist"
begin

section \<open>Retry utility (src/utils/retry.ts)\<close>

text \<open>
  JavaScript numbers are modelled as follows: HTTP status codes and the loop counter are
  integers (\<^typ>\<open>int\<close>), delays and the policy's numeric parameters are real numbers
  (\<^typ>\<open>real\<close>), the idealisation of IEEE doubles without rounding, NaN or infinities.
\<close>

subsection \<open>Options\<close>

text \<open>\<^verbatim>\<open>interface RetryOptions\<close>: every field is optional.\<close>

record RetryOptions =
  maxAttempts_opt :: "int option"
  baseDelayMs_opt :: "real option"
  factor_opt :: "real option"
  jitterPercent_opt :: "real option"

text \<open>\<^verbatim>\<open>Required<RetryOptions>\<close>: every field is present.\<close>

record RequiredRetryOptions =
  maxAttempts :: int
  baseDelayMs :: real
  factor :: real
  jitterPercent :: real

definition DEFAULT_OPTIONS :: RequiredRetryOptions where
  "DEFAULT_OPTIONS = \<lparr>maxAttempts = 5, baseDelayMs = 500, factor = 2, jitterPercent = 15\<rparr>"

text \<open>The object spread \<^verbatim>\<open>{ ...DEFAULT_OPTIONS, ...options }\<close>.\<close>

definition spread_options :: "RequiredRetryOptions \<Rightarrow> RetryOptions \<Rightarrow> RequiredRetryOptions" where
  "spread_options d options =
     \<lparr>maxAttempts = (case maxAttempts_opt options of None \<Rightarrow> maxAttempts d | Some v \<Rightarrow> v),
      baseDelayMs = (case baseDelayMs_opt options of None \<Rightarrow> baseDelayMs d | Some v \<Rightarrow> v),
      factor = (case factor_opt options of None \<Rightarrow> factor d | Some v \<Rightarrow> v),
      jitterPercent = (case jitterPercent_opt options of None \<Rightarrow> jitterPercent d | Some v \<Rightarrow> v)\<rparr>"

definition no_options :: RetryOptions where
  "no_options = \<lparr>maxAttempts_opt = None, baseDelayMs_opt = None, factor_opt = None,
                  jitterPercent_opt = None\<rparr>"

subsection \<open>shouldRetry\<close>

definition shouldRetry :: "int \<Rightarrow> bool" where
  "shouldRetry statusCode \<longleftrightarrow> statusCode = 429 \<or> (statusCode \<ge> 500 \<and> statusCode < 600)"

subsection \<open>calculateDelay\<close>

text \<open>
  The value of \<^verbatim>\<open>Math.random()\<close> is the extra argument \<open>rnd\<close>; the runtime promises
  \<open>0 \<le> rnd < 1\<close>. \<^verbatim>\<open>Math.pow(factor, attempt - 1)\<close> is \<^const>\<open>power_int\<close>.
\<close>

definition calculateDelay :: "int \<Rightarrow> RequiredRetryOptions \<Rightarrow> real \<Rightarrow> real" where
  "calculateDelay attempt options rnd =
     (let exponentialDelay = baseDelayMs options * power_int (factor options) (attempt - 1);
          jitter = (exponentialDelay * jitterPercent options) / 100;
          jitterAmount = (rnd * 2 - 1) * jitter
      in max 0 (exponentialDelay + jitterAmount))"

subsection \<open>Thrown values\<close>

text \<open>
  A property of a JavaScript object is absent (\<^verbatim>\<open>'k' in o\<close> is false), present with the
  value \<^verbatim>\<open>undefined\<close>, or present with a value.
\<close>

datatype 'a field = Absent | Undef | Val 'a

text \<open>
  What an operation can throw: a value that is falsy or not an object, or an object, of which
  the fields \<^verbatim>\<open>statusCode\<close>, \<^verbatim>\<open>retryAfter\<close> and \<^verbatim>\<open>status\<close> are the ones the retry loop looks
  at; everything else the object carries (message, response body) is the opaque payload.
\<close>

datatype 'b thrown =
    NotObject 'b
  | ErrObject "int field" "real field" "int field" 'b

text \<open>
  Lines 69 to 79 of \<^verbatim>\<open>withRetry\<close>: the pair \<open>(statusCode, retryAfter)\<close> read from the caught
  value, \<open>None\<close> standing for \<^verbatim>\<open>undefined\<close>.
\<close>

fun read_field :: "'a field \<Rightarrow> 'a option" where
  "read_field Absent = None"
| "read_field Undef = None"
| "read_field (Val v) = Some v"

fun probe_error :: "'b thrown \<Rightarrow> int option \<times> real option" where
  "probe_error (NotObject _) = (None, None)"
| "probe_error (ErrObject sc ra st _) =
     (if sc \<noteq> Absent then
        (read_field sc, if ra \<noteq> Absent then read_field ra else None)
      else if st \<noteq> Absent then (read_field st, None)
      else (None, None))"

subsection \<open>withRetry\<close>

text \<open>
  The effects of a run are recorded in a state: how often the operation has been invoked,
  how many random numbers have been drawn, and the sequence of invocations and sleeps.
  The operation \<open>fn\<close> is given by its outcome at each invocation (numbered from 0), either
  a thrown value (\<open>Inl\<close>) or a result (\<open>Inr\<close>); \<^verbatim>\<open>Math.random\<close> by the sequence \<open>rng\<close> of the
  values it returns.
\<close>

datatype event = Invoke | Sleep real

record run_state =
  invocations :: nat
  draws :: nat
  trace :: "event list"

definition init_state :: run_state where
  "init_state = \<lparr>invocations = 0, draws = 0, trace = []\<rparr>"

datatype ('a, 'b) outcome = Resolved 'a | Rejected "'b thrown" | RejectedUndefined

text \<open>\<^verbatim>\<open>throw lastError\<close>, where \<open>None\<close> is the variable never assigned.\<close>

fun throw_last :: "'b thrown option \<Rightarrow> ('a, 'b) outcome" where
  "throw_last None = RejectedUndefined"
| "throw_last (Some e) = Rejected e"

definition invoked :: "run_state \<Rightarrow> run_state" where
  "invoked st = st\<lparr>invocations := invocations st + 1, trace := trace st @ [Invoke]\<rparr>"

definition slept :: "real \<Rightarrow> run_state \<Rightarrow> run_state" where
  "slept ms st = st\<lparr>trace := trace st @ [Sleep ms]\<rparr>"

definition drawn :: "run_state \<Rightarrow> run_state" where
  "drawn st = st\<lparr>draws := draws st + 1\<rparr>"

function withRetry_loop ::
  "(nat \<Rightarrow> 'b thrown + 'a) \<Rightarrow> (nat \<Rightarrow> real) \<Rightarrow> RequiredRetryOptions \<Rightarrow> int \<Rightarrow>
   'b thrown option \<Rightarrow> run_state \<Rightarrow> ('a, 'b) outcome \<times> run_state" where
  "withRetry_loop fn rng opts attempt lastError st =
     (if attempt \<le> maxAttempts opts then
        (case fn (invocations st) of
           Inr v \<Rightarrow> (Resolved v, invoked st)
         | Inl error \<Rightarrow>
             (if fst (probe_error error) \<noteq> None \<and> \<not> shouldRetry (the (fst (probe_error error)))
              then (Rejected error, invoked st)
              else if attempt = maxAttempts opts
              then (throw_last (Some error), invoked st)
              else if fst (probe_error error) = Some 429 \<and> snd (probe_error error) \<noteq> None
              then withRetry_loop fn rng opts (attempt + 1) (Some error)
                     (slept (the (snd (probe_error error)) * 1000) (invoked st))
              else withRetry_loop fn rng opts (attempt + 1) (Some error)
                     (slept (calculateDelay attempt opts (rng (draws st)))
                        (drawn (invoked st)))))
      else (throw_last lastError, st))"
  by pat_completeness auto
termination
  by (relation "measure (\<lambda>(fn, rng, opts, attempt, lastError, st).
        nat (maxAttempts opts + 1 - attempt))") auto

definition withRetry ::
  "(nat \<Rightarrow> 'b thrown + 'a) \<Rightarrow> (nat \<Rightarrow> real) \<Rightarrow> RetryOptions \<Rightarrow> ('a, 'b) outcome \<times> run_state" where
  "withRetry fn rng options =
     withRetry_loop fn rng (spread_options DEFAULT_OPTIONS options) 1 None init_state"

text \<open>
  An error is retryable for the loop when it carries no status code, or one that
  \<^const>\<open>shouldRetry\<close> accepts (the negation of the test on line 82).
\<close>

definition retryable :: "'b thrown \<Rightarrow> bool" where
  "retryable e \<longleftrightarrow> (case fst (probe_error e) of None \<Rightarrow> True | Some s \<Rightarrow> shouldRetry s)"


section \<open>ServiceNow Table API client\<close>

text \<open>
  Strings are byte strings (UTF-8). The module \<^verbatim>\<open>config/env\<close> is not among the sources: the
  configuration object is a parameter, each credential an optional string (\<open>None\<close> is
  \<^verbatim>\<open>undefined\<close>).
\<close>

record Config =
  SERVICE_NOW_USER :: "string option"
  SERVICE_NOW_PASSWORD :: "string option"
  SERVICE_NOW_CLIENT_ID :: "string option"
  SERVICE_NOW_CLIENT_SECRET :: "string option"
  SERVICE_NOW_API_KEY :: "string option"

text \<open>A value inside a template literal: \<^verbatim>\<open>undefined\<close> prints as the word.\<close>

definition template :: "string option \<Rightarrow> string" where
  "template v = (case v of None \<Rightarrow> ''undefined'' | Some s \<Rightarrow> s)"

text \<open>\<^verbatim>\<open>!v\<close> for an optional string: true for \<^verbatim>\<open>undefined\<close> and for the empty string.\<close>

definition falsy :: "string option \<Rightarrow> bool" where
  "falsy v \<longleftrightarrow> (case v of None \<Rightarrow> True | Some s \<Rightarrow> s = [])"

subsection \<open>Base64, as \<^verbatim>\<open>Buffer.from(s).toString('base64')\<close>\<close>

definition base64_alphabet :: string where
  "base64_alphabet = ''ABCDEFGHIJKLMNOPQRSTUVWXYZabcdefghijklmnopqrstuvwxyz0123456789+/''"

definition sextet :: "nat \<Rightarrow> char" where
  "sextet n = base64_alphabet ! (n mod 64)"

fun base64_bytes :: "nat list \<Rightarrow> string" where
  "base64_bytes [] = []"
| "base64_bytes [a] = [sextet (a div 4), sextet ((a mod 4) * 16), CHR ''='', CHR ''='']"
| "base64_bytes [a, b] =
     [sextet (a div 4), sextet ((a mod 4) * 16 + b div 16), sextet ((b mod 16) * 4), CHR ''='']"
| "base64_bytes (a # b # c # rest) =
     [sextet (a div 4), sextet ((a mod 4) * 16 + b div 16),
      sextet ((b mod 16) * 4 + c div 64), sextet (c mod 64)] @ base64_bytes rest"

definition base64 :: "string \<Rightarrow> string" where
  "base64 s = base64_bytes (map of_char s)"

subsection \<open>buildAuthHeader and the constructor\<close>

datatype error = Error string

text \<open>
  The auth mode is a string at run time (the constructor casts \<^verbatim>\<open>config.AUTH_MODE\<close>), so the
  \<^verbatim>\<open>default\<close> branch of the switch is reachable.
\<close>

definition buildAuthHeader :: "Config \<Rightarrow> string \<Rightarrow> error + string" where
  "buildAuthHeader config mode =
     (if mode = ''basic'' then
        Inr (''Basic '' @
          base64 (template (SERVICE_NOW_USER config) @ '':'' @
                  template (SERVICE_NOW_PASSWORD config)))
      else if mode = ''oauth'' then
        (if falsy (SERVICE_NOW_CLIENT_ID config) \<or> falsy (SERVICE_NOW_CLIENT_SECRET config)
         then Inl (Error ''OAuth requires SERVICE_NOW_CLIENT_ID and SERVICE_NOW_CLIENT_SECRET'')
         else Inr (''Basic '' @
           base64 (template (SERVICE_NOW_CLIENT_ID config) @ '':'' @
                   template (SERVICE_NOW_CLIENT_SECRET config))))
      else if mode = ''apiKey'' then
        (if falsy (SERVICE_NOW_API_KEY config)
         then Inl (Error ''API Key auth requires SERVICE_NOW_API_KEY'')
         else Inr (''Bearer '' @ template (SERVICE_NOW_API_KEY config)))
      else Inl (Error (''Unsupported auth mode: '' @ mode)))"

record ServiceNowClient =
  instanceUrl :: string
  authMode :: string
  authHeader :: string

text \<open>\<^verbatim>\<open>instanceUrl.replace(/\/$/, '')\<close>: one trailing slash is removed.\<close>

definition strip_trailing_slash :: "string \<Rightarrow> string" where
  "strip_trailing_slash s = (if s \<noteq> [] \<and> last s = CHR ''/'' then butlast s else s)"

text \<open>The constructor: it fails exactly when \<^const>\<open>buildAuthHeader\<close> throws.\<close>

definition new_ServiceNowClient :: "Config \<Rightarrow> string \<Rightarrow> string \<Rightarrow> error + ServiceNowClient" where
  "new_ServiceNowClient config url mode =
     (case buildAuthHeader config mode of
        Inl e \<Rightarrow> Inl e
      | Inr h \<Rightarrow> Inr \<lparr>instanceUrl = strip_trailing_slash url, authMode = mode, authHeader = h\<rparr>)"

subsection \<open>buildQueryString\<close>

record TableApiParams =
  sysparm_fields :: "string option"
  sysparm_limit :: "int option"
  sysparm_offset :: "int option"
  sysparm_query :: "string option"
  sysparm_display_value :: "bool option"

text \<open>
  \<^verbatim>\<open>encodeURIComponent\<close>: every byte is written as \<open>%XX\<close> but the letters, the digits and
  \<^verbatim>\<open>- _ . ! ~ * ' ( )\<close>.
\<close>

definition uri_unreserved :: "char \<Rightarrow> bool" where
  "uri_unreserved c \<longleftrightarrow>
     c \<in> set (''ABCDEFGHIJKLMNOPQRSTUVWXYZabcdefghijklmnopqrstuvwxyz0123456789-_.!~*()'' @
              [CHR 0x27])"

definition hex_digit :: "nat \<Rightarrow> char" where
  "hex_digit n = ''0123456789ABCDEF'' ! (n mod 16)"

definition percent_encode :: "char \<Rightarrow> string" where
  "percent_encode c =
     (if uri_unreserved c then [c]
      else [CHR ''%'', hex_digit (of_char c div 16), hex_digit (of_char c mod 16)])"

definition encodeURIComponent :: "string \<Rightarrow> string" where
  "encodeURIComponent s = concat (map percent_encode s)"

text \<open>
  A number inside a template literal. The limit and the offset are integers; JavaScript
  prints an integer of magnitude below \<open>10\<^sup>2\<^sup>1\<close> in decimal, which is what is modelled.
\<close>

fun show_nat :: "nat \<Rightarrow> string" where
  "show_nat n =
     (if n < 10 then [''0123456789'' ! n]
      else show_nat (n div 10) @ [''0123456789'' ! (n mod 10)])"

definition show_number :: "int \<Rightarrow> string" where
  "show_number i = (if i < 0 then ''-'' @ show_nat (nat (- i)) else show_nat (nat i))"

definition show_boolean :: "bool \<Rightarrow> string" where
  "show_boolean b = (if b then ''true'' else ''false'')"

text \<open>\<^verbatim>\<open>Array.prototype.join\<close>.\<close>

fun join :: "string \<Rightarrow> string list \<Rightarrow> string" where
  "join sep [] = []"
| "join sep [x] = x"
| "join sep (x # y # ys) = x @ sep @ join sep (y # ys)"

text \<open>
  The array \<^verbatim>\<open>queryParts\<close> after the five tests of \<^verbatim>\<open>buildQueryString\<close>, each of which
  pushes at most one token. A string field is tested for truthiness, a number for
  \<^verbatim>\<open>!== undefined\<close>.
\<close>

definition queryParts :: "TableApiParams \<Rightarrow> string list" where
  "queryParts params =
     (case sysparm_fields params of
        Some f \<Rightarrow> (if f \<noteq> [] then [''sysparm_fields='' @ encodeURIComponent f] else [])
      | None \<Rightarrow> []) @
     (case sysparm_limit params of
        Some n \<Rightarrow> [''sysparm_limit='' @ show_number n]
      | None \<Rightarrow> []) @
     (case sysparm_offset params of
        Some n \<Rightarrow> [''sysparm_offset='' @ show_number n]
      | None \<Rightarrow> []) @
     (case sysparm_query params of
        Some q \<Rightarrow> (if q \<noteq> [] then [''sysparm_query='' @ encodeURIComponent q] else [])
      | None \<Rightarrow> []) @
     (case sysparm_display_value params of
        Some b \<Rightarrow> [''sysparm_display_value='' @ show_boolean b]
      | None \<Rightarrow> [''sysparm_display_value=false''])"

definition buildQueryString :: "TableApiParams \<Rightarrow> string" where
  "buildQueryString params =
     (let qp = queryParts params
      in if length qp > 0 then ''?'' @ join ''&'' qp else [])"

definition no_params :: TableApiParams where
  "no_params = \<lparr>sysparm_fields = None, sysparm_limit = None, sysparm_offset = None,
                 sysparm_query = None, sysparm_display_value = None\<rparr>"

section \<open>Properties of the retry utility\<close>

declare withRetry_loop.simps [simp del]

subsection \<open>shouldRetry\<close>

text \<open>
  C1. For every integer status code \<open>s\<close>, \<open>shouldRetry s\<close> is true if and only if \<open>s = 429\<close> or
  \<open>500 \<le> s \<le> 599\<close>; in particular it is false for every code in 400..499 other than 429.
\<close>

theorem shouldRetry_iff:
  "(shouldRetry s \<longleftrightarrow> s = 429 \<or> (500 \<le> s \<and> s \<le> 599)) \<and>
   (400 \<le> s \<and> s \<le> 499 \<and> s \<noteq> 429 \<longrightarrow> \<not> shouldRetry s)"
  unfolding shouldRetry_def by arith

theorem shouldRetry_iff_witness:
  "(400::int) \<le> 404 \<and> (404::int) \<le> 499 \<and> (404::int) \<noteq> 429 \<and> \<not> shouldRetry 404 \<and>
   shouldRetry 429 \<and> shouldRetry 500 \<and> shouldRetry 599 \<and> \<not> shouldRetry 600"
  using shouldRetry_iff [of 404] shouldRetry_iff [of 429] shouldRetry_iff [of 500]
    shouldRetry_iff [of 599] shouldRetry_iff [of 600]
  by simp

subsection \<open>One turn of the loop\<close>

text \<open>
  What one failed attempt does, by the branch of the \<^verbatim>\<open>catch\<close> block it takes: the error is
  rethrown at once, the loop is left at the last attempt, or the loop sleeps (for the time
  the server asked for, or for the backoff delay) and goes on with the next attempt.
\<close>

lemma loop_reject_step:
  assumes "attempt \<le> maxAttempts opts" "fn (invocations st) = Inl e"
    "fst (probe_error e) = Some s" "\<not> shouldRetry s"
  shows "withRetry_loop fn rng opts attempt le st = (Rejected e, invoked st)"
  using assms by (subst withRetry_loop.simps) simp

lemma loop_last_step:
  assumes "fn (invocations st) = Inl e" "retryable e"
  shows "withRetry_loop fn rng opts (maxAttempts opts) le st = (Rejected e, invoked st)"
  using assms by (subst withRetry_loop.simps) (auto simp: retryable_def split: option.splits)

lemma loop_hint_step:
  assumes "attempt < maxAttempts opts" "fn (invocations st) = Inl e"
    "fst (probe_error e) = Some 429" "snd (probe_error e) = Some r"
  shows "withRetry_loop fn rng opts attempt le st =
         withRetry_loop fn rng opts (attempt + 1) (Some e) (slept (r * 1000) (invoked st))"
  using assms by (subst withRetry_loop.simps) (simp add: shouldRetry_def)

lemma loop_backoff_step:
  assumes "attempt < maxAttempts opts" "fn (invocations st) = Inl e" "retryable e"
    "\<not> (fst (probe_error e) = Some 429 \<and> snd (probe_error e) \<noteq> None)"
  shows "withRetry_loop fn rng opts attempt le st =
         withRetry_loop fn rng opts (attempt + 1) (Some e)
           (slept (calculateDelay attempt opts (rng (draws st))) (drawn (invoked st)))"
  using assms by (subst withRetry_loop.simps) (auto simp: retryable_def split: option.splits)


text \<open>The trace only grows.\<close>

lemma loop_trace_prefix:
  "prefix (trace st) (trace (snd (withRetry_loop fn rng opts attempt le st)))"
proof (induction fn rng opts attempt le st rule: withRetry_loop.induct)
  case (1 fn rng opts attempt lastError st)
  have ext: "prefix (trace st) zs" if "prefix (trace st @ ys) zs" for ys zs
    using that by (rule append_prefixD)
  show ?case
  proof (cases "attempt \<le> maxAttempts opts")
    case False
    then show ?thesis by (subst withRetry_loop.simps) simp
  next
    case le: True
    show ?thesis
    proof (cases "fn (invocations st)")
      case (Inr v)
      with le show ?thesis by (subst withRetry_loop.simps) (simp add: invoked_def)
    next
      case (Inl e)
      consider (stop) "fst (probe_error e) \<noteq> None \<and> \<not> shouldRetry (the (fst (probe_error e)))
                       \<or> attempt = maxAttempts opts"
        | (hint) "\<not> (fst (probe_error e) \<noteq> None \<and> \<not> shouldRetry (the (fst (probe_error e))))"
                 "attempt \<noteq> maxAttempts opts"
                 "fst (probe_error e) = Some 429 \<and> snd (probe_error e) \<noteq> None"
        | (backoff) "\<not> (fst (probe_error e) \<noteq> None \<and> \<not> shouldRetry (the (fst (probe_error e))))"
                 "attempt \<noteq> maxAttempts opts"
                 "\<not> (fst (probe_error e) = Some 429 \<and> snd (probe_error e) \<noteq> None)"
        by blast
      then show ?thesis
      proof cases
        case stop
        with le Inl show ?thesis
          by (subst withRetry_loop.simps) (auto simp: invoked_def)
      next
        case hint
        from "1.IH"(1) [OF le Inl hint]
        have "prefix (trace st) (trace (snd (withRetry_loop fn rng opts (attempt + 1) (Some e)
                (slept (the (snd (probe_error e)) * 1000) (invoked st)))))"
          by (auto simp: slept_def invoked_def intro: ext)
        with le Inl hint show ?thesis
          by (subst withRetry_loop.simps) auto
      next
        case backoff
        from "1.IH"(2) [OF le Inl backoff]
        have "prefix (trace st) (trace (snd (withRetry_loop fn rng opts (attempt + 1) (Some e)
                (slept (calculateDelay attempt opts (rng (draws st))) (drawn (invoked st))))))"
          by (auto simp: slept_def invoked_def drawn_def intro: ext)
        with le Inl backoff show ?thesis
          by (subst withRetry_loop.simps) auto
      qed
    qed
  qed
qed

subsection \<open>Exhaustion\<close>




subsection \<open>The server's wait hint\<close>

text \<open>
  C3. For every attempt but the last that fails with an error carrying \<open>statusCode\<close> 429
  and a defined \<open>retryAfter\<close> value \<open>r\<close>, the delay before the next attempt is exactly
  \<open>r * 1000\<close> milliseconds: no random number is drawn, and neither \<open>jitterPercent\<close> nor
  \<open>baseDelayMs\<close> nor \<open>factor\<close> enters.
\<close>

theorem retry_after_overrides_backoff:
  assumes "attempt < maxAttempts opts"
    and "fn (invocations st) = Inl (ErrObject (Val 429) (Val r) sf b)"
  shows "withRetry_loop fn rng opts attempt le st =
           withRetry_loop fn rng opts (attempt + 1) (Some (ErrObject (Val 429) (Val r) sf b))
             (slept (r * 1000) (invoked st)) \<and>
         draws (slept (r * 1000) (invoked st)) = draws st \<and>
         prefix (trace st @ [Invoke, Sleep (r * 1000)])
           (trace (snd (withRetry_loop fn rng opts attempt le st)))"
proof -
  let ?e = "ErrObject (Val 429) (Val r) sf b"
  have step: "withRetry_loop fn rng opts attempt le st =
      withRetry_loop fn rng opts (attempt + 1) (Some ?e) (slept (r * 1000) (invoked st))"
    using assms by (intro loop_hint_step) simp_all
  have "prefix (trace (slept (r * 1000) (invoked st)))
      (trace (snd (withRetry_loop fn rng opts (attempt + 1) (Some ?e) (slept (r * 1000) (invoked st)))))"
    by (rule loop_trace_prefix)
  with step show ?thesis by (simp add: slept_def invoked_def)
qed

theorem retry_after_overrides_backoff_witness:
  "withRetry_loop (\<lambda>i. Inl (ErrObject (Val 429) (Val 2) Absent ()) :: unit thrown + unit)
      (\<lambda>i. 1 / 2) DEFAULT_OPTIONS 1 None init_state =
   withRetry_loop (\<lambda>i. Inl (ErrObject (Val 429) (Val 2) Absent ())) (\<lambda>i. 1 / 2) DEFAULT_OPTIONS 2
      (Some (ErrObject (Val 429) (Val 2) Absent ())) (slept 2000 (invoked init_state)) \<and>
   prefix [Invoke, Sleep 2000]
     (trace (snd (withRetry_loop (\<lambda>i. Inl (ErrObject (Val 429) (Val 2) Absent ()) :: unit thrown + unit)
        (\<lambda>i. 1 / 2) DEFAULT_OPTIONS 1 None init_state)))"
proof -
  have h: "1 < maxAttempts DEFAULT_OPTIONS" by (simp add: DEFAULT_OPTIONS_def)
  note t = retry_after_overrides_backoff [where attempt = 1 and opts = DEFAULT_OPTIONS
      and fn = "\<lambda>i. Inl (ErrObject (Val 429) (Val 2) Absent ()) :: unit thrown + unit"
      and st = init_state and r = 2 and sf = Absent and b = "()" and rng = "\<lambda>i. 1 / 2"
      and le = None, OF h refl]
  show ?thesis
  proof (intro conjI)
    from t show "withRetry_loop (\<lambda>i. Inl (ErrObject (Val 429) (Val 2) Absent ()) :: unit thrown + unit)
        (\<lambda>i. 1 / 2) DEFAULT_OPTIONS 1 None init_state =
      withRetry_loop (\<lambda>i. Inl (ErrObject (Val 429) (Val 2) Absent ())) (\<lambda>i. 1 / 2) DEFAULT_OPTIONS 2
        (Some (ErrObject (Val 429) (Val 2) Absent ())) (slept 2000 (invoked init_state))"
      by simp
    from t have "prefix (trace init_state @ [Invoke, Sleep (2 * 1000)])
        (trace (snd (withRetry_loop (\<lambda>i. Inl (ErrObject (Val 429) (Val 2) Absent ()) :: unit thrown + unit)
          (\<lambda>i. 1 / 2) DEFAULT_OPTIONS 1 None init_state)))"
      by (elim conjE)
    then show "prefix [Invoke, Sleep 2000]
        (trace (snd (withRetry_loop (\<lambda>i. Inl (ErrObject (Val 429) (Val 2) Absent ()) :: unit thrown + unit)
          (\<lambda>i. 1 / 2) DEFAULT_OPTIONS 1 None init_state)))"
      by (simp add: init_state_def)
  qed
qed

subsection \<open>Errors that are not retried\<close>

text \<open>
  C4. For every operation whose first attempt fails with an error carrying a status code
  that is not retryable (any 4xx other than 429), \<open>withRetry\<close> ends after exactly one
  invocation, without a delay, rejecting with that very error, whatever the budget of
  attempts (of at least 1) is.
\<close>

theorem non_retryable_fails_fast:
  assumes "fn 0 = Inl e" and "fst (probe_error e) = Some s"
    and "400 \<le> s" and "s \<le> 499" and "s \<noteq> 429"
    and "1 \<le> maxAttempts (spread_options DEFAULT_OPTIONS options)"
  shows "withRetry fn rng options = (Rejected e, \<lparr>invocations = 1, draws = 0, trace = [Invoke]\<rparr>)"
proof -
  have "\<not> shouldRetry s" using assms(3-5) by (simp add: shouldRetry_def)
  with assms show ?thesis
    unfolding withRetry_def
    by (subst loop_reject_step [where e = e and s = s]) (simp_all add: init_state_def invoked_def)
qed

theorem non_retryable_fails_fast_witness:
  "withRetry (\<lambda>i. Inl (ErrObject (Val 404) Absent Absent ''not found'') :: string thrown + unit)
      (\<lambda>i. 1 / 2) no_options =
   (Rejected (ErrObject (Val 404) Absent Absent ''not found''),
    \<lparr>invocations = 1, draws = 0, trace = [Invoke]\<rparr>)"
  using non_retryable_fails_fast [where e = "ErrObject (Val 404) Absent Absent ''not found''"
      and fn = "\<lambda>i. Inl (ErrObject (Val 404) Absent Absent ''not found'') :: string thrown + unit"
      and s = 404 and options = no_options and rng = "\<lambda>i. 1 / 2"]
  by (simp add: spread_options_def DEFAULT_OPTIONS_def no_options_def)

subsection \<open>Backoff with jitter\<close>

lemma calculateDelay_eq:
  "1 \<le> attempt \<Longrightarrow> calculateDelay attempt opts rnd =
     max 0 (baseDelayMs opts * factor opts ^ nat (attempt - 1) +
            (rnd * 2 - 1) * (baseDelayMs opts * factor opts ^ nat (attempt - 1) * jitterPercent opts / 100))"
  by (simp add: calculateDelay_def power_int_def Let_def)

lemma jitter_amount_bound:
  fixes rnd jitter :: real
  assumes "0 \<le> rnd" "rnd < 1"
  shows "\<bar>(rnd * 2 - 1) * jitter\<bar> \<le> \<bar>jitter\<bar>"
proof -
  have "\<bar>rnd * 2 - 1\<bar> \<le> 1" using assms by (simp add: abs_le_iff)
  then have "\<bar>rnd * 2 - 1\<bar> * \<bar>jitter\<bar> \<le> 1 * \<bar>jitter\<bar>"
    by (intro mult_right_mono) simp_all
  then show ?thesis by (simp add: abs_mult)
qed

text \<open>
  C5, amended. For every attempt \<open>n \<ge> 1\<close> but the last that fails retryably without a usable
  429 wait hint, the delay is \<open>max 0 (base + r)\<close>, where \<open>base = baseDelayMs * factor ^ (n - 1)\<close>,
  \<open>jitter = base * jitterPercent / 100\<close> and \<open>r = (2 * rnd - 1) * jitter\<close> for the random number
  \<open>0 \<le> rnd < 1\<close>, so that \<open>r\<close> lies between \<open>- |jitter|\<close> and \<open>|jitter|\<close>. When \<open>base\<close> is not
  negative, \<open>jitterPercent = 15\<close> puts the delay between \<open>0.85 * base\<close> and \<open>1.15 * base\<close>, and
  \<open>jitterPercent = 0\<close> makes it exactly \<open>base\<close>.
\<close>

theorem backoff_delay:
  assumes "1 \<le> attempt" and "attempt < maxAttempts opts"
    and "fn (invocations st) = Inl e" and "retryable e"
    and "\<not> (fst (probe_error e) = Some 429 \<and> snd (probe_error e) \<noteq> None)"
    and "0 \<le> rng (draws st)" and "rng (draws st) < 1"
  shows "\<exists>base jitter r delay.
      base = baseDelayMs opts * factor opts ^ nat (attempt - 1) \<and>
      jitter = base * jitterPercent opts / 100 \<and>
      r = (rng (draws st) * 2 - 1) * jitter \<and> \<bar>r\<bar> \<le> \<bar>jitter\<bar> \<and>
      delay = max 0 (base + r) \<and>
      withRetry_loop fn rng opts attempt le st =
        withRetry_loop fn rng opts (attempt + 1) (Some e) (slept delay (drawn (invoked st))) \<and>
      (0 \<le> base \<and> jitterPercent opts = 15 \<longrightarrow> base * (85 / 100) \<le> delay \<and> delay \<le> base * (115 / 100)) \<and>
      (0 \<le> base \<and> jitterPercent opts = 0 \<longrightarrow> delay = base)"
proof -
  define base where "base = baseDelayMs opts * factor opts ^ nat (attempt - 1)"
  define jitter where "jitter = base * jitterPercent opts / 100"
  define r where "r = (rng (draws st) * 2 - 1) * jitter"
  define delay where "delay = max 0 (base + r)"
  have d: "calculateDelay attempt opts (rng (draws st)) = delay"
    using assms(1) by (simp add: calculateDelay_eq delay_def r_def jitter_def base_def)
  have step: "withRetry_loop fn rng opts attempt le st =
      withRetry_loop fn rng opts (attempt + 1) (Some e) (slept delay (drawn (invoked st)))"
    using loop_backoff_step [where fn = fn and st = st and e = e and rng = rng and opts = opts
        and le = le and attempt = attempt] assms(2-5) d by simp
  have rb: "\<bar>r\<bar> \<le> \<bar>jitter\<bar>"
    unfolding r_def using assms(6,7) by (rule jitter_amount_bound)
  have b15: "base * (85 / 100) \<le> delay \<and> delay \<le> base * (115 / 100)"
    if "0 \<le> base" "jitterPercent opts = 15"
  proof -
    have j: "jitter = base * (15 / 100)" "0 \<le> jitter" using that by (simp_all add: jitter_def)
    from rb j have "- jitter \<le> r" "r \<le> jitter" by (simp_all add: abs_le_iff)
    with j that(1) show ?thesis by (simp add: delay_def max_def)
  qed
  have b0: "delay = base" if "0 \<le> base" "jitterPercent opts = 0"
    using that by (simp add: delay_def r_def jitter_def)
  show ?thesis
    using step rb b15 b0 base_def jitter_def r_def delay_def by blast
qed

theorem backoff_delay_witness:
  "withRetry_loop (\<lambda>i. Inl (ErrObject (Val 503) Absent Absent ()) :: unit thrown + unit)
      (\<lambda>i. 1 / 2) DEFAULT_OPTIONS 2 None init_state =
   withRetry_loop (\<lambda>i. Inl (ErrObject (Val 503) Absent Absent ())) (\<lambda>i. 1 / 2) DEFAULT_OPTIONS 3
      (Some (ErrObject (Val 503) Absent Absent ())) (slept 1000 (drawn (invoked init_state))) \<and>
   withRetry_loop (\<lambda>i. Inl (NotObject ()) :: unit thrown + unit) (\<lambda>i. 1 / 4)
      \<lparr>maxAttempts = 3, baseDelayMs = 100, factor = 3, jitterPercent = 0\<rparr> 2 None init_state =
   withRetry_loop (\<lambda>i. Inl (NotObject ())) (\<lambda>i. 1 / 4)
      \<lparr>maxAttempts = 3, baseDelayMs = 100, factor = 3, jitterPercent = 0\<rparr> 3
      (Some (NotObject ())) (slept 300 (drawn (invoked init_state)))"
  using backoff_delay [of 2 DEFAULT_OPTIONS "\<lambda>i. Inl (ErrObject (Val 503) Absent Absent ()) :: unit thrown + unit"
      init_state "ErrObject (Val 503) Absent Absent ()" "\<lambda>i. 1 / 2" None]
    backoff_delay [of 2 "\<lparr>maxAttempts = 3, baseDelayMs = 100, factor = 3, jitterPercent = 0\<rparr>"
      "\<lambda>i. Inl (NotObject ()) :: unit thrown + unit" init_state "NotObject ()" "\<lambda>i. 1 / 4" None]
  by (simp add: retryable_def shouldRetry_def DEFAULT_OPTIONS_def)

text \<open>
  The claim as first stated has no condition on \<open>base\<close>. With a negative \<open>baseDelayMs\<close> the
  floor at 0 decides: for \<open>jitterPercent = 0\<close> the delay is 0, not \<open>base\<close>.
\<close>

theorem backoff_delay_counterexample:
  "calculateDelay 1 \<lparr>maxAttempts = 5, baseDelayMs = - 500, factor = 2, jitterPercent = 0\<rparr> (1 / 2) = 0 \<and>
   baseDelayMs \<lparr>maxAttempts = 5, baseDelayMs = - 500, factor = 2, jitterPercent = 0\<rparr> *
     factor \<lparr>maxAttempts = 5, baseDelayMs = - 500, factor = 2, jitterPercent = 0\<rparr> ^ nat (1 - 1) = - 500"
  by (simp add: calculateDelay_def)

subsection \<open>Errors with a \<open>status\<close> field\<close>

text \<open>
  C10. For every error object that gives its code in a \<open>status\<close> field and has no
  \<open>statusCode\<close> field, the loop decides with that code whether to retry, and never reads a
  wait hint from it: also with status 429 and a \<open>retryAfter\<close> value, the delay before the
  next attempt is the backoff delay with jitter, never \<open>retryAfter * 1000\<close>.
\<close>

theorem status_field_never_hint:
  assumes "attempt \<le> maxAttempts opts"
    and "fn (invocations st) = Inl (ErrObject Absent ra (Val s) b)"
  shows "(\<not> shouldRetry s \<longrightarrow>
            withRetry_loop fn rng opts attempt le st = (Rejected (ErrObject Absent ra (Val s) b), invoked st)) \<and>
         (shouldRetry s \<and> attempt = maxAttempts opts \<longrightarrow>
            withRetry_loop fn rng opts attempt le st = (Rejected (ErrObject Absent ra (Val s) b), invoked st)) \<and>
         (shouldRetry s \<and> attempt < maxAttempts opts \<longrightarrow>
            withRetry_loop fn rng opts attempt le st =
              withRetry_loop fn rng opts (attempt + 1) (Some (ErrObject Absent ra (Val s) b))
                (slept (calculateDelay attempt opts (rng (draws st))) (drawn (invoked st))))"
  using assms
  by (auto simp: loop_reject_step loop_last_step loop_backoff_step retryable_def)

theorem status_field_never_hint_witness:
  "withRetry_loop (\<lambda>i. Inl (ErrObject Absent (Val 2) (Val 429) ()) :: unit thrown + unit)
      (\<lambda>i. 1 / 2) DEFAULT_OPTIONS 1 None init_state =
   withRetry_loop (\<lambda>i. Inl (ErrObject Absent (Val 2) (Val 429) ())) (\<lambda>i. 1 / 2) DEFAULT_OPTIONS 2
      (Some (ErrObject Absent (Val 2) (Val 429) ())) (slept 500 (drawn (invoked init_state))) \<and>
   withRetry_loop (\<lambda>i. Inl (ErrObject Absent (Val 2) (Val 404) ()) :: unit thrown + unit)
      (\<lambda>i. 1 / 2) DEFAULT_OPTIONS 1 None init_state =
   (Rejected (ErrObject Absent (Val 2) (Val 404) ()), invoked init_state)"
  using status_field_never_hint [where attempt = 1 and opts = DEFAULT_OPTIONS
      and fn = "\<lambda>i. Inl (ErrObject Absent (Val 2) (Val 429) ()) :: unit thrown + unit"
      and st = init_state and ra = "Val 2" and s = 429 and b = "()" and rng = "\<lambda>i. 1 / 2"
      and le = None]
    status_field_never_hint [where attempt = 1 and opts = DEFAULT_OPTIONS
      and fn = "\<lambda>i. Inl (ErrObject Absent (Val 2) (Val 404) ()) :: unit thrown + unit"
      and st = init_state and ra = "Val 2" and s = 404 and b = "()" and rng = "\<lambda>i. 1 / 2"
      and le = None]
  by (simp add: shouldRetry_def DEFAULT_OPTIONS_def calculateDelay_def)

section \<open>Properties of the client\<close>

subsection \<open>Credentials\<close>

text \<open>
  C6. In every auth mode, a missing credential of that mode is to make the construction
  fail. The \<open>oauth\<close> and \<open>apiKey\<close> branches test their credentials; the \<open>basic\<close> branch does
  not: with no user and no password the constructor returns a client whose header encodes
  the text \<open>undefined:undefined\<close>, and with an empty password one that encodes \<open>admin:\<close>.
\<close>

theorem basic_mode_skips_credential_check:
  "new_ServiceNowClient
     \<lparr>SERVICE_NOW_USER = None, SERVICE_NOW_PASSWORD = None, SERVICE_NOW_CLIENT_ID = None,
      SERVICE_NOW_CLIENT_SECRET = None, SERVICE_NOW_API_KEY = None\<rparr>
     ''https://dev.service-now.com/'' ''basic'' =
   Inr \<lparr>instanceUrl = ''https://dev.service-now.com'', authMode = ''basic'',
        authHeader = ''Basic dW5kZWZpbmVkOnVuZGVmaW5lZA==''\<rparr> \<and>
   new_ServiceNowClient
     \<lparr>SERVICE_NOW_USER = Some ''admin'', SERVICE_NOW_PASSWORD = Some [],
      SERVICE_NOW_CLIENT_ID = None, SERVICE_NOW_CLIENT_SECRET = None,
      SERVICE_NOW_API_KEY = None\<rparr>
     ''https://dev.service-now.com/'' ''basic'' =
   Inr \<lparr>instanceUrl = ''https://dev.service-now.com'', authMode = ''basic'',
        authHeader = ''Basic YWRtaW46''\<rparr>"
  by code_simp

text \<open>
  The \<open>basic\<close> branch has no failing path at all, whereas the other two branches fail on a
  credential that is \<^verbatim>\<open>undefined\<close> or empty.
\<close>

lemma basic_mode_never_fails: "\<exists>h. buildAuthHeader config ''basic'' = Inr h"
  by (simp add: buildAuthHeader_def)

lemma oauth_checks_credentials:
  "falsy (SERVICE_NOW_CLIENT_ID config) \<or> falsy (SERVICE_NOW_CLIENT_SECRET config) \<Longrightarrow>
   \<exists>e. new_ServiceNowClient config url ''oauth'' = Inl e"
  by (simp add: new_ServiceNowClient_def buildAuthHeader_def)

lemma apiKey_checks_credentials:
  "falsy (SERVICE_NOW_API_KEY config) \<Longrightarrow> \<exists>e. new_ServiceNowClient config url ''apiKey'' = Inl e"
  by (simp add: new_ServiceNowClient_def buildAuthHeader_def)

subsection \<open>The query string\<close>

text \<open>
  C7. \<open>buildQueryString\<close> of limit 10 and query \<open>a>b\<close>, nothing else set, is exactly
  \<open>?sysparm_limit=10&sysparm_query=a%3Eb&sysparm_display_value=false\<close>, its tokens being these
  three (none for the fields, none for the offset); and when all five parameters are set the
  tokens come in the order fields, limit, offset, query, display value.
\<close>

theorem buildQueryString_example:
  "buildQueryString \<lparr>sysparm_fields = None, sysparm_limit = Some 10, sysparm_offset = None,
      sysparm_query = Some ''a>b'', sysparm_display_value = None\<rparr> =
     ''?sysparm_limit=10&sysparm_query=a%3Eb&sysparm_display_value=false'' \<and>
   queryParts \<lparr>sysparm_fields = None, sysparm_limit = Some 10, sysparm_offset = None,
      sysparm_query = Some ''a>b'', sysparm_display_value = None\<rparr> =
     [''sysparm_limit=10'', ''sysparm_query=a%3Eb'', ''sysparm_display_value=false''] \<and>
   (f \<noteq> [] \<and> q \<noteq> [] \<longrightarrow>
      queryParts \<lparr>sysparm_fields = Some f, sysparm_limit = Some l, sysparm_offset = Some off,
        sysparm_query = Some q, sysparm_display_value = Some d\<rparr> =
      [''sysparm_fields='' @ encodeURIComponent f, ''sysparm_limit='' @ show_number l,
       ''sysparm_offset='' @ show_number off, ''sysparm_query='' @ encodeURIComponent q,
       ''sysparm_display_value='' @ show_boolean d])"
proof (intro conjI impI)
  show "buildQueryString \<lparr>sysparm_fields = None, sysparm_limit = Some 10, sysparm_offset = None,
      sysparm_query = Some ''a>b'', sysparm_display_value = None\<rparr> =
     ''?sysparm_limit=10&sysparm_query=a%3Eb&sysparm_display_value=false''"
    by code_simp
  show "queryParts \<lparr>sysparm_fields = None, sysparm_limit = Some 10, sysparm_offset = None,
      sysparm_query = Some ''a>b'', sysparm_display_value = None\<rparr> =
     [''sysparm_limit=10'', ''sysparm_query=a%3Eb'', ''sysparm_display_value=false'']"
    by code_simp
  show "queryParts \<lparr>sysparm_fields = Some f, sysparm_limit = Some l, sysparm_offset = Some off,
        sysparm_query = Some q, sysparm_display_value = Some d\<rparr> =
      [''sysparm_fields='' @ encodeURIComponent f, ''sysparm_limit='' @ show_number l,
       ''sysparm_offset='' @ show_number off, ''sysparm_query='' @ encodeURIComponent q,
       ''sysparm_display_value='' @ show_boolean d]" if "f \<noteq> [] \<and> q \<noteq> []"
    using that by (simp add: queryParts_def)
qed

theorem buildQueryString_example_witness:
  "queryParts \<lparr>sysparm_fields = Some ''a,b'', sysparm_limit = Some 5, sysparm_offset = Some 20,
        sysparm_query = Some ''x=1'', sysparm_display_value = Some True\<rparr> =
      [''sysparm_fields=a%2Cb'', ''sysparm_limit=5'', ''sysparm_offset=20'', ''sysparm_query=x%3D1'',
       ''sysparm_display_value=true'']"
proof -
  have e: "encodeURIComponent ''a,b'' = ''a%2Cb''" "encodeURIComponent ''x=1'' = ''x%3D1''"
    "show_number 5 = ''5''" "show_number 20 = ''20''" "show_boolean True = ''true''"
    by code_simp+
  show ?thesis
    using buildQueryString_example [of "''a,b''" "''x=1''" 5 20 True] unfolding e by simp
qed

lemma last_suffix_join: "xs \<noteq> [] \<Longrightarrow> suffix (last xs) (join sep xs)"
  by (induction sep xs rule: join.induct) (auto simp: suffix_append)

lemma member_infix_join: "t \<in> set xs \<Longrightarrow> \<exists>a b. join sep xs = a @ t @ b"
proof (induction sep xs rule: join.induct)
  case (1 sep)
  then show ?case by simp
next
  case (2 sep x)
  then show ?case by (auto intro: exI [of _ "[]"])
next
  case (3 sep x y ys)
  show ?case
  proof (cases "t = x")
    case True
    then show ?thesis by (auto intro: exI [of _ "[]"])
  next
    case False
    with 3 obtain a b where "join sep (y # ys) = a @ t @ b" by auto
    then have "join sep (x # y # ys) = (x @ sep @ a) @ t @ b" by simp
    then show ?thesis by blast
  qed
qed

lemma token_in_query_string:
  assumes "t \<in> set (queryParts params)"
  shows "\<exists>a b. buildQueryString params = a @ t @ b"
proof -
  from assms have ne: "queryParts params \<noteq> []" by auto
  from member_infix_join [OF assms] obtain a b where "join ''&'' (queryParts params) = a @ t @ b"
    by blast
  with ne have "buildQueryString params = (''?'' @ a) @ t @ b"
    by (simp add: buildQueryString_def Let_def)
  then show ?thesis by blast
qed

lemma show_number_0: "show_number 0 = ''0''"
  by (simp add: show_number_def)

lemma queryParts_last:
  "queryParts params \<noteq> [] \<and>
   last (queryParts params) = ''sysparm_display_value='' @
     (case sysparm_display_value params of None \<Rightarrow> ''false''
      | Some b \<Rightarrow> if b then ''true'' else ''false'')"
  by (simp add: queryParts_def show_boolean_def split: option.splits)

text \<open>
  C8. For every input, \<open>buildQueryString\<close> is not the empty string: it is \<open>?\<close> followed by the
  tokens joined with \<open>&\<close>, the last of which is the \<open>sysparm_display_value\<close> token, with the
  value \<open>false\<close> when the parameter is absent and the boolean as written otherwise. For the
  input with nothing set the result is exactly \<open>?sysparm_display_value=false\<close>.
\<close>

theorem buildQueryString_never_empty:
  "buildQueryString params \<noteq> [] \<and>
   buildQueryString params = ''?'' @ join ''&'' (queryParts params) \<and>
   last (queryParts params) = ''sysparm_display_value='' @
     (case sysparm_display_value params of None \<Rightarrow> ''false''
      | Some b \<Rightarrow> if b then ''true'' else ''false'') \<and>
   suffix (''sysparm_display_value='' @
     (case sysparm_display_value params of None \<Rightarrow> ''false''
      | Some b \<Rightarrow> if b then ''true'' else ''false'')) (buildQueryString params) \<and>
   buildQueryString no_params = ''?sysparm_display_value=false''"
proof -
  let ?tok = "''sysparm_display_value='' @
     (case sysparm_display_value params of None \<Rightarrow> ''false''
      | Some b \<Rightarrow> if b then ''true'' else ''false'')"
  have ne: "queryParts params \<noteq> []" and l: "last (queryParts params) = ?tok"
    using queryParts_last [of params] by simp_all
  have b: "buildQueryString params = ''?'' @ join ''&'' (queryParts params)"
    using ne by (simp add: buildQueryString_def Let_def)
  have "suffix (last (queryParts params)) (join ''&'' (queryParts params))"
    using ne by (rule last_suffix_join)
  then have s: "suffix ?tok (buildQueryString params)"
    unfolding b l by (rule suffix_appendI)
  have n: "buildQueryString no_params = ''?sysparm_display_value=false''"
    by (simp add: buildQueryString_def queryParts_def no_params_def)
  from b l s n show ?thesis by simp
qed

theorem buildQueryString_never_empty_witness:
  "buildQueryString (no_params\<lparr>sysparm_display_value := Some True\<rparr>) \<noteq> [] \<and>
   suffix ''sysparm_display_value=true''
     (buildQueryString (no_params\<lparr>sysparm_display_value := Some True\<rparr>))"
proof -
  let ?p = "no_params\<lparr>sysparm_display_value := Some True\<rparr>"
  from buildQueryString_never_empty [of ?p]
  have "buildQueryString ?p \<noteq> []"
    and "suffix (''sysparm_display_value='' @
      (case sysparm_display_value ?p of None \<Rightarrow> ''false''
       | Some b \<Rightarrow> if b then ''true'' else ''false'')) (buildQueryString ?p)"
    by blast+
  then show ?thesis by simp
qed

text \<open>
  C9. A \<open>sysparm_fields\<close> or \<open>sysparm_query\<close> that is the empty string gives the same query
  string as an absent one, and no token of that name; a limit of 0 and an offset of 0 are
  written as \<open>sysparm_limit=0\<close> and \<open>sysparm_offset=0\<close>.
\<close>

theorem empty_strings_omitted:
  "buildQueryString (params\<lparr>sysparm_fields := Some []\<rparr>) =
     buildQueryString (params\<lparr>sysparm_fields := None\<rparr>) \<and>
   buildQueryString (params\<lparr>sysparm_query := Some []\<rparr>) =
     buildQueryString (params\<lparr>sysparm_query := None\<rparr>) \<and>
   (\<forall>t \<in> set (queryParts (params\<lparr>sysparm_fields := Some []\<rparr>)). \<not> prefix ''sysparm_fields='' t) \<and>
   (\<forall>t \<in> set (queryParts (params\<lparr>sysparm_query := Some []\<rparr>)). \<not> prefix ''sysparm_query='' t) \<and>
   ''sysparm_limit=0'' \<in> set (queryParts (params\<lparr>sysparm_limit := Some 0\<rparr>)) \<and>
   ''sysparm_offset=0'' \<in> set (queryParts (params\<lparr>sysparm_offset := Some 0\<rparr>)) \<and>
   (\<exists>a b. buildQueryString (params\<lparr>sysparm_limit := Some 0\<rparr>) = a @ ''sysparm_limit=0'' @ b) \<and>
   (\<exists>a b. buildQueryString (params\<lparr>sysparm_offset := Some 0\<rparr>) = a @ ''sysparm_offset=0'' @ b)"
proof -
  have f: "buildQueryString (params\<lparr>sysparm_fields := Some []\<rparr>) =
     buildQueryString (params\<lparr>sysparm_fields := None\<rparr>)"
    by (simp add: buildQueryString_def queryParts_def)
  have q: "buildQueryString (params\<lparr>sysparm_query := Some []\<rparr>) =
     buildQueryString (params\<lparr>sysparm_query := None\<rparr>)"
    by (simp add: buildQueryString_def queryParts_def)
  have nf: "\<forall>t \<in> set (queryParts (params\<lparr>sysparm_fields := Some []\<rparr>)). \<not> prefix ''sysparm_fields='' t"
    by (auto simp: queryParts_def split: option.splits)
  have nq: "\<forall>t \<in> set (queryParts (params\<lparr>sysparm_query := Some []\<rparr>)). \<not> prefix ''sysparm_query='' t"
    by (auto simp: queryParts_def split: option.splits)
  have l: "''sysparm_limit=0'' \<in> set (queryParts (params\<lparr>sysparm_limit := Some 0\<rparr>))"
    by (simp add: queryParts_def show_number_0)
  have off: "''sysparm_offset=0'' \<in> set (queryParts (params\<lparr>sysparm_offset := Some 0\<rparr>))"
    by (simp add: queryParts_def show_number_0)
  from f q nf nq l off token_in_query_string [OF l] token_in_query_string [OF off]
  show ?thesis by simp
qed

theorem empty_strings_omitted_witness:
  "buildQueryString (no_params\<lparr>sysparm_fields := Some []\<rparr>) =
     buildQueryString (no_params\<lparr>sysparm_fields := None\<rparr>) \<and>
   ''sysparm_display_value=false'' \<in> set (queryParts (no_params\<lparr>sysparm_fields := Some []\<rparr>)) \<and>
   \<not> prefix ''sysparm_fields='' ''sysparm_display_value=false'' \<and>
   ''sysparm_display_value=false'' \<in> set (queryParts (no_params\<lparr>sysparm_query := Some []\<rparr>)) \<and>
   \<not> prefix ''sysparm_query='' ''sysparm_display_value=false'' \<and>
   ''sysparm_limit=0'' \<in> set (queryParts (no_params\<lparr>sysparm_limit := Some 0\<rparr>))"
proof -
  have m: "''sysparm_display_value=false'' \<in> set (queryParts (no_params\<lparr>sysparm_fields := Some []\<rparr>))"
    "''sysparm_display_value=false'' \<in> set (queryParts (no_params\<lparr>sysparm_query := Some []\<rparr>))"
    by (simp_all add: queryParts_def no_params_def)
  from empty_strings_omitted [of no_params] m show ?thesis by blast
qed

end
